theory Spec2Isabelle
  imports Main
begin

section \<open>Syntax trees\<close>

text \<open>
  The operator of a logical expression is one of \<^verbatim>\<open>&&\<close>, \<^verbatim>\<open>||\<close> and \<^verbatim>\<open>??\<close>, as the
  node's type declares it. Binary and unary operators stay strings, the way the
  code compares them (\<^verbatim>\<open>condition.operator === '=='\<close>).
\<close>

datatype logicalOperator = And | Or | Nullish

text \<open>
  A literal with its text as written (for a string literal, the text between the quotes).
  \<^verbatim>\<open>j.Literal.check\<close> accepts every kind of literal.
\<close>

datatype literal = StringLiteral string | NumericLiteral string | OtherLiteral string

text \<open>
  The node kinds the transformation inspects are constructors of their own; any other
  kind of expression is an \<open>OtherExpression\<close> with the name of its kind and its
  sub-expressions. \<open>CallExpression\<close> stands for every node that
  \<^verbatim>\<open>j.CallExpression.check\<close> accepts, with the callee and the arguments.
\<close>

datatype expr =
    Identifier string
  | Literal literal
  | CallExpression expr "expr list"
  | UnaryExpression string expr
  | BinaryExpression string expr expr
  | LogicalExpression logicalOperator expr expr
  | ConditionalExpression expr expr expr
  | OtherExpression string "expr list"

datatype 's switchCase = SwitchCase "expr option" "'s list"

datatype stmt =
    ExpressionStatement expr
  | ReturnStatement "expr option"
  | BreakStatement
  | BlockStatement "stmt list"
  | IfStatement expr stmt "stmt option"
  | SwitchStatement expr "stmt switchCase list"

text \<open>
  \<^verbatim>\<open>interface DecisionTree { condition; trueBranch: DecisionTree | null;
  falseBranch: DecisionTree | null }\<close>
\<close>

datatype decisionTree =
  DecisionTree (condition: expr) (trueBranch: "decisionTree option")
    (falseBranch: "decisionTree option")

section \<open>Building the decision tree\<close>

fun makeDecisionTree :: "expr \<Rightarrow> decisionTree" where
  "makeDecisionTree (ConditionalExpression test consequent alternate) =
     DecisionTree test (Some (makeDecisionTree consequent)) (Some (makeDecisionTree alternate))"
| "makeDecisionTree (LogicalExpression And left right) =
     DecisionTree left (Some (makeDecisionTree right)) None"
| "makeDecisionTree (LogicalExpression Or left right) =
     DecisionTree left None (Some (makeDecisionTree right))"
| "makeDecisionTree (LogicalExpression Nullish left right) =
     DecisionTree (BinaryExpression ''=='' left (Identifier ''null''))
       (Some (makeDecisionTree right)) None"
| "makeDecisionTree node = DecisionTree node None None"

section \<open>Structural equality and the comparison bases\<close>

text \<open>
  \<^verbatim>\<open>areNodesEqual\<close> compares the source text the printer gives for the two nodes. The
  printer is a library outside the repository, so it is the parameter \<open>toSource\<close> of
  every function that compares nodes.
\<close>

definition areNodesEqual :: "(expr \<Rightarrow> string) \<Rightarrow> expr \<Rightarrow> expr \<Rightarrow> bool" where
  "areNodesEqual toSource node1 node2 \<longleftrightarrow> toSource node1 = toSource node2"

fun isComparisonBase :: "expr \<Rightarrow> bool" where
  "isComparisonBase (Literal _) = False"
| "isComparisonBase (CallExpression _ _) = False"
| "isComparisonBase _ = True"

text \<open>
  \<^verbatim>\<open>leftBases.find(node1 => rightBases.find(node2 => areNodesEqual(j, node1, node2)))\<close>
  gives the first left base that has an equal right base; the result holds that one
  base, or nothing.
\<close>

fun extractComparisonBases :: "(expr \<Rightarrow> string) \<Rightarrow> expr \<Rightarrow> expr list" where
  "extractComparisonBases toSource (BinaryExpression operator left right) =
     (if operator = ''=='' \<or> operator = ''===''
      then filter isComparisonBase [left, right]
      else [])"
| "extractComparisonBases toSource (LogicalExpression Or left right) =
     (let leftBases = extractComparisonBases toSource left;
          rightBases = extractComparisonBases toSource right
      in if length leftBases > 0 \<and> length rightBases > 0
         then (case find (\<lambda>node1. find (\<lambda>node2. areNodesEqual toSource node1 node2) rightBases \<noteq> None)
                      leftBases of
                 Some baseVariable \<Rightarrow> [baseVariable]
               | None \<Rightarrow> [])
         else [])"
| "extractComparisonBases toSource _ = []"

fun extractComparisonValues :: "(expr \<Rightarrow> string) \<Rightarrow> expr \<Rightarrow> expr \<Rightarrow> expr list" where
  "extractComparisonValues toSource (BinaryExpression operator left right) base =
     (if operator = ''=='' \<or> operator = ''===''
      then (if areNodesEqual toSource left base then [right]
            else if areNodesEqual toSource right base then [left]
            else [])
      else [])"
| "extractComparisonValues toSource (LogicalExpression Or left right) base =
     extractComparisonValues toSource left base @ extractComparisonValues toSource right base"
| "extractComparisonValues toSource _ base = []"

section \<open>Switch synthesis\<close>

text \<open>
  \<^verbatim>\<open>countBaseVariableUsedInAllBranches(j, base, tree, count = 0)\<close>: the count is an
  accumulator, \<open>-1\<close> the value for a node that does not test the base.
\<close>

fun countBaseVariableUsedInAllBranches ::
  "(expr \<Rightarrow> string) \<Rightarrow> expr \<Rightarrow> decisionTree \<Rightarrow> int \<Rightarrow> int" where
  "countBaseVariableUsedInAllBranches toSource base (DecisionTree cond None None) count = count"
| "countBaseVariableUsedInAllBranches toSource base (DecisionTree cond (Some t) (Some f)) count =
     (if \<not> list_ex (\<lambda>node. areNodesEqual toSource node base) (extractComparisonBases toSource cond)
      then - 1
      else max (countBaseVariableUsedInAllBranches toSource base t (count + 1))
               (countBaseVariableUsedInAllBranches toSource base f (count + 1)))"
| "countBaseVariableUsedInAllBranches toSource base (DecisionTree cond (Some t) None) count =
     (if \<not> list_ex (\<lambda>node. areNodesEqual toSource node base) (extractComparisonBases toSource cond)
      then - 1
      else countBaseVariableUsedInAllBranches toSource base t (count + 1))"
| "countBaseVariableUsedInAllBranches toSource base (DecisionTree cond None (Some f)) count =
     (if \<not> list_ex (\<lambda>node. areNodesEqual toSource node base) (extractComparisonBases toSource cond)
      then - 1
      else countBaseVariableUsedInAllBranches toSource base f (count + 1))"

definition SWITCH_THRESHOLD :: int where
  "SWITCH_THRESHOLD = 3"

text \<open>
  \<^verbatim>\<open>const [lastComparisonValue, ...otherComparisonValues] = comparisonValues.reverse()\<close>
  followed by \<^verbatim>\<open>otherComparisonValues.reverse()\<close>: the last value (none for an empty
  list) and the values before it, in their order.
\<close>

fun collectSwitchCase ::
  "(expr \<Rightarrow> string) \<Rightarrow> decisionTree \<Rightarrow> expr \<Rightarrow> stmt switchCase list" where
  "collectSwitchCase toSource (DecisionTree cond None None) base = []"
| "collectSwitchCase toSource (DecisionTree cond tb fb) base =
     (let comparisonValues = extractComparisonValues toSource cond base;
          lastComparisonValue = (case rev comparisonValues of [] \<Rightarrow> None | v # _ \<Rightarrow> Some v);
          otherComparisonValues = rev (tl (rev comparisonValues))
      in map (\<lambda>comparisonValue. SwitchCase (Some comparisonValue) []) otherComparisonValues
         @ (case lastComparisonValue of
              None \<Rightarrow> []
            | Some v \<Rightarrow>
                (case tb of
                   Some t \<Rightarrow> [SwitchCase (Some v) [ExpressionStatement (condition t), BreakStatement]]
                 | None \<Rightarrow> [SwitchCase (Some v) []]))
         @ (case fb of
              None \<Rightarrow> []
            | Some f \<Rightarrow>
                if trueBranch f \<noteq> None \<or> falseBranch f \<noteq> None
                then collectSwitchCase toSource f base
                else [SwitchCase None [ExpressionStatement (condition f), BreakStatement]]))"

definition renderDecisionTreeWithSwitch :: "(expr \<Rightarrow> string) \<Rightarrow> decisionTree \<Rightarrow> stmt option" where
  "renderDecisionTreeWithSwitch toSource tree =
     (let comparisonBases = extractComparisonBases toSource (condition tree)
      in if length comparisonBases = 0 then None
         else (case find (\<lambda>base. countBaseVariableUsedInAllBranches toSource base tree 0
                                    \<ge> SWITCH_THRESHOLD) comparisonBases of
                 None \<Rightarrow> None
               | Some comparisonBase \<Rightarrow>
                   Some (SwitchStatement comparisonBase
                           (collectSwitchCase toSource tree comparisonBase))))"

section \<open>Rendering\<close>

fun isIfStatement :: "stmt \<Rightarrow> bool" where
  "isIfStatement (IfStatement _ _ _) = True"
| "isIfStatement _ = False"

fun renderDecisionTree :: "(expr \<Rightarrow> string) \<Rightarrow> decisionTree \<Rightarrow> stmt list" where
  "renderDecisionTree toSource (DecisionTree cond tb fb) =
     (case renderDecisionTreeWithSwitch toSource (DecisionTree cond tb fb) of
        Some switchStatement \<Rightarrow> [switchStatement]
      | None \<Rightarrow>
          (case (tb, fb) of
             (Some t, Some f) \<Rightarrow>
               (let falseBranchStatements = renderDecisionTree toSource f
                in if length falseBranchStatements = 1 \<and> isIfStatement (hd falseBranchStatements)
                   then [IfStatement cond (BlockStatement (renderDecisionTree toSource t))
                           (Some (hd falseBranchStatements))]
                   else [IfStatement cond (BlockStatement (renderDecisionTree toSource t))
                           (Some (BlockStatement falseBranchStatements))])
           | (Some t, None) \<Rightarrow>
               [IfStatement cond (BlockStatement (renderDecisionTree toSource t)) None]
           | (None, Some f) \<Rightarrow>
               [IfStatement (UnaryExpression ''!'' cond)
                  (BlockStatement (renderDecisionTree toSource f)) None]
           | (None, None) \<Rightarrow> [ExpressionStatement cond]))"

text \<open>
  The last line of the source, \<^verbatim>\<open>condition ? [j.returnStatement(condition)] : []\<close>,
  tests a node, which is an object and so never falsy: a leaf renders as one return.
\<close>

fun renderDecisionTreeWithEarlyReturn :: "decisionTree \<Rightarrow> stmt list" where
  "renderDecisionTreeWithEarlyReturn (DecisionTree cond (Some t) (Some f)) =
     IfStatement cond (BlockStatement (renderDecisionTreeWithEarlyReturn t)) None
       # renderDecisionTreeWithEarlyReturn f"
| "renderDecisionTreeWithEarlyReturn (DecisionTree cond (Some t) None) =
     [IfStatement cond (BlockStatement (renderDecisionTreeWithEarlyReturn t)) None]"
| "renderDecisionTreeWithEarlyReturn (DecisionTree cond None (Some f)) =
     [IfStatement (UnaryExpression ''!'' cond)
        (BlockStatement (renderDecisionTreeWithEarlyReturn f)) None]"
| "renderDecisionTreeWithEarlyReturn (DecisionTree cond None None) =
     [ReturnStatement (Some cond)]"

section \<open>The transformation\<close>

fun isConditionalExpression :: "expr \<Rightarrow> bool" where
  "isConditionalExpression (ConditionalExpression _ _ _) = True"
| "isConditionalExpression _ = False"

fun isLogicalExpression :: "expr \<Rightarrow> bool" where
  "isLogicalExpression (LogicalExpression _ _ _) = True"
| "isLogicalExpression _ = False"

text \<open>
  \<^verbatim>\<open>j(node).find(j.ConditionalExpression)\<close> collects the conditional expressions among
  the nodes below \<open>node\<close>; \<open>descendants\<close> lists those nodes.
\<close>

fun descendants :: "expr \<Rightarrow> expr list" where
  "descendants (Identifier _) = []"
| "descendants (Literal _) = []"
| "descendants (CallExpression callee arguments) =
     callee # descendants callee @ concat (map (\<lambda>a. a # descendants a) arguments)"
| "descendants (UnaryExpression _ argument) = argument # descendants argument"
| "descendants (BinaryExpression _ left right) =
     left # descendants left @ right # descendants right"
| "descendants (LogicalExpression _ left right) =
     left # descendants left @ right # descendants right"
| "descendants (ConditionalExpression test consequent alternate) =
     test # descendants test @ consequent # descendants consequent
       @ alternate # descendants alternate"
| "descendants (OtherExpression _ children) = concat (map (\<lambda>c. c # descendants c) children)"

text \<open>The filter of the second pass: a return whose argument is a nested ternary.\<close>

fun isNestedTernary :: "expr \<Rightarrow> bool" where
  "isNestedTernary (ConditionalExpression test consequent alternate) =
     (isConditionalExpression consequent
      \<or> isConditionalExpression alternate
      \<or> length (filter isConditionalExpression (descendants consequent)) > 0
      \<or> length (filter isConditionalExpression (descendants alternate)) > 0)"
| "isNestedTernary _ = False"

text \<open>
  Each pass is a filter with the statements that replace a match: none for a statement
  the filter rejects.
\<close>

fun ternaryStatementPass :: "(expr \<Rightarrow> string) \<Rightarrow> stmt \<Rightarrow> stmt list option" where
  "ternaryStatementPass toSource (ExpressionStatement expression) =
     (if isConditionalExpression expression
      then Some (renderDecisionTree toSource (makeDecisionTree expression))
      else None)"
| "ternaryStatementPass toSource _ = None"

fun returnTernaryPass :: "stmt \<Rightarrow> stmt list option" where
  "returnTernaryPass (ReturnStatement (Some argument)) =
     (if isNestedTernary argument
      then Some (renderDecisionTreeWithEarlyReturn (makeDecisionTree argument))
      else None)"
| "returnTernaryPass _ = None"

fun logicalStatementPass :: "(expr \<Rightarrow> string) \<Rightarrow> stmt \<Rightarrow> stmt list option" where
  "logicalStatementPass toSource (ExpressionStatement expression) =
     (if isLogicalExpression expression
      then Some (renderDecisionTree toSource (makeDecisionTree expression))
      else None)"
| "logicalStatementPass toSource _ = None"

text \<open>
  Modelled from the spec: \<^verbatim>\<open>transformToMultiStatementContext\<close>, which is imported from
  \<^verbatim>\<open>../utils/transformToMultiStatementContext\<close> and puts the replacements where the
  matched statement was: spliced into the list when the statement sat in a block or in
  the body of a switch case, wrapped into a block when it was the sole body of an
  \<^verbatim>\<open>if\<close>. \<open>replaceMatches pass multi s\<close> is what one \<^verbatim>\<open>find(...).forEach(...)\<close> leaves
  in the place of \<open>s\<close>; \<open>multi\<close> says that \<open>s\<close> sits in a list of statements. The
  paths are collected before any is replaced, so the replacements themselves are not
  visited in the same pass.
\<close>

fun asStatement :: "stmt list \<Rightarrow> stmt" where
  "asStatement [s] = s"
| "asStatement ss = BlockStatement ss"

fun replaceMatches :: "(stmt \<Rightarrow> stmt list option) \<Rightarrow> bool \<Rightarrow> stmt \<Rightarrow> stmt list" where
  "replaceMatches pass multi (BlockStatement body) =
     [BlockStatement (concat (map (replaceMatches pass True) body))]"
| "replaceMatches pass multi (IfStatement test consequent alternate) =
     [IfStatement test (asStatement (replaceMatches pass False consequent))
        (map_option (\<lambda>a. asStatement (replaceMatches pass False a)) alternate)]"
| "replaceMatches pass multi (SwitchStatement discriminant cases) =
     [SwitchStatement discriminant
        (map (\<lambda>c. case c of SwitchCase test body \<Rightarrow>
                SwitchCase test (concat (map (replaceMatches pass True) body))) cases)]"
| "replaceMatches pass multi s =
     (case pass s of
        None \<Rightarrow> [s]
      | Some replacements \<Rightarrow> if multi then replacements else [BlockStatement replacements])"

text \<open>The three passes of \<^verbatim>\<open>transformAST\<close>, in their order, over the body of the program.\<close>

definition transformAST :: "(expr \<Rightarrow> string) \<Rightarrow> stmt list \<Rightarrow> stmt list" where
  "transformAST toSource body =
     (let body1 = concat (map (replaceMatches (ternaryStatementPass toSource) True) body);
          body2 = concat (map (replaceMatches returnTernaryPass True) body1);
          body3 = concat (map (replaceMatches (logicalStatementPass toSource) True) body2)
      in body3)"

section \<open>Shapes of nodes\<close>

text \<open>The checks \<^verbatim>\<open>j.Literal.check\<close>, \<^verbatim>\<open>j.CallExpression.check\<close> and their like on statements.\<close>

fun isLiteral :: "expr \<Rightarrow> bool" where
  "isLiteral (Literal _) = True"
| "isLiteral _ = False"

fun isCallExpression :: "expr \<Rightarrow> bool" where
  "isCallExpression (CallExpression _ _) = True"
| "isCallExpression _ = False"

text \<open>The two shapes that \<^verbatim>\<open>extractComparisonBases\<close> looks into.\<close>

fun isEqualityComparison :: "expr \<Rightarrow> bool" where
  "isEqualityComparison (BinaryExpression operator _ _) =
     (operator = ''=='' \<or> operator = ''==='')"
| "isEqualityComparison _ = False"

fun isOrExpression :: "expr \<Rightarrow> bool" where
  "isOrExpression (LogicalExpression Or _ _) = True"
| "isOrExpression _ = False"

fun isSwitchStatement :: "stmt \<Rightarrow> bool" where
  "isSwitchStatement (SwitchStatement _ _) = True"
| "isSwitchStatement _ = False"

fun isExpressionStatement :: "stmt \<Rightarrow> bool" where
  "isExpressionStatement (ExpressionStatement _) = True"
| "isExpressionStatement _ = False"

section \<open>Chains of tests of one base\<close>

text \<open>
  The words of the specification for the threshold check: a node tests the base \<open>b\<close>
  when \<open>b\<close> is among the comparison bases of its own condition, and a valid chain
  runs from the root of the tree down to a leaf through internal nodes that all test
  \<open>b\<close>. \<open>validChain toSource b tree n\<close>: such a chain through \<open>tree\<close> passes \<open>n\<close>
  internal nodes.
\<close>

definition testsBase :: "(expr \<Rightarrow> string) \<Rightarrow> expr \<Rightarrow> expr \<Rightarrow> bool" where
  "testsBase toSource base cond \<longleftrightarrow>
     list_ex (\<lambda>node. toSource node = toSource base) (extractComparisonBases toSource cond)"

inductive validChain :: "(expr \<Rightarrow> string) \<Rightarrow> expr \<Rightarrow> decisionTree \<Rightarrow> nat \<Rightarrow> bool"
  for toSource :: "expr \<Rightarrow> string" and base :: expr where
  atLeaf: "validChain toSource base (DecisionTree cond None None) 0"
| viaTrue: "testsBase toSource base cond \<Longrightarrow> validChain toSource base t n
     \<Longrightarrow> validChain toSource base (DecisionTree cond (Some t) fb) (Suc n)"
| viaFalse: "testsBase toSource base cond \<Longrightarrow> validChain toSource base f n
     \<Longrightarrow> validChain toSource base (DecisionTree cond tb (Some f)) (Suc n)"

section \<open>Example programs\<close>

text \<open>
  A printer to put in the place of \<open>toSource\<close> where an example needs a concrete one:
  every compound expression in parentheses, so that different trees print differently.
\<close>

fun printLiteral :: "literal \<Rightarrow> string" where
  "printLiteral (StringLiteral text) = [CHR 0x27] @ text @ [CHR 0x27]"
| "printLiteral (NumericLiteral raw) = raw"
| "printLiteral (OtherLiteral raw) = raw"

fun printOperator :: "logicalOperator \<Rightarrow> string" where
  "printOperator And = ''&&''"
| "printOperator Or = ''||''"
| "printOperator Nullish = ''??''"

fun printExpr :: "expr \<Rightarrow> string" where
  "printExpr (Identifier name) = name"
| "printExpr (Literal l) = printLiteral l"
| "printExpr (CallExpression callee arguments) =
     printExpr callee @ ''('' @ concat (map (\<lambda>a. printExpr a @ '','') arguments) @ '')''"
| "printExpr (UnaryExpression operator argument) =
     ''('' @ operator @ printExpr argument @ '')''"
| "printExpr (BinaryExpression operator left right) =
     ''('' @ printExpr left @ operator @ printExpr right @ '')''"
| "printExpr (LogicalExpression operator left right) =
     ''('' @ printExpr left @ printOperator operator @ printExpr right @ '')''"
| "printExpr (ConditionalExpression test consequent alternate) =
     ''('' @ printExpr test @ ''?'' @ printExpr consequent @ '':'' @ printExpr alternate @ '')''"
| "printExpr (OtherExpression kind children) =
     kind @ ''['' @ concat (map (\<lambda>c. printExpr c @ '','') children) @ '']''"

text \<open>\<^verbatim>\<open>name()\<close>, \<^verbatim>\<open>name == 1\<close> for a number and \<^verbatim>\<open>name == 'x'\<close> for a string.\<close>

definition callOf :: "string \<Rightarrow> expr" where
  "callOf name = CallExpression (Identifier name) []"

definition equalsNumber :: "string \<Rightarrow> string \<Rightarrow> expr" where
  "equalsNumber name raw = BinaryExpression ''=='' (Identifier name) (Literal (NumericLiteral raw))"

definition equalsString :: "string \<Rightarrow> string \<Rightarrow> expr" where
  "equalsString name text = BinaryExpression ''=='' (Identifier name) (Literal (StringLiteral text))"

text \<open>\<^verbatim>\<open>a==1?f():a==2?g():a==3?h():k()\<close>\<close>

definition chainOfThree :: expr where
  "chainOfThree =
     ConditionalExpression (equalsNumber ''a'' ''1'') (callOf ''f'')
       (ConditionalExpression (equalsNumber ''a'' ''2'') (callOf ''g'')
          (ConditionalExpression (equalsNumber ''a'' ''3'') (callOf ''h'') (callOf ''k'')))"

text \<open>\<^verbatim>\<open>a==1?f():a==2?g():h()\<close>\<close>

definition chainOfTwo :: expr where
  "chainOfTwo =
     ConditionalExpression (equalsNumber ''a'' ''1'') (callOf ''f'')
       (ConditionalExpression (equalsNumber ''a'' ''2'') (callOf ''g'') (callOf ''h''))"

text \<open>\<^verbatim>\<open>a=='x'||a=='y'?f():g()\<close>\<close>

definition eitherOfTwo :: expr where
  "eitherOfTwo =
     ConditionalExpression
       (LogicalExpression Or (equalsString ''a'' ''x'') (equalsString ''a'' ''y''))
       (callOf ''f'') (callOf ''g'')"

text \<open>\<^verbatim>\<open>a==1?f():a==2?g():a=='x'||a=='y'?h():k()\<close>\<close>

definition chainWithEither :: expr where
  "chainWithEither =
     ConditionalExpression (equalsNumber ''a'' ''1'') (callOf ''f'')
       (ConditionalExpression (equalsNumber ''a'' ''2'') (callOf ''g'')
          (ConditionalExpression
             (LogicalExpression Or (equalsString ''a'' ''x'') (equalsString ''a'' ''y''))
             (callOf ''h'') (callOf ''k'')))"

text \<open>\<^verbatim>\<open>a ? f() : b ? g() : h()\<close>\<close>

definition plainTernaries :: expr where
  "plainTernaries =
     ConditionalExpression (Identifier ''a'') (callOf ''f'')
       (ConditionalExpression (Identifier ''b'') (callOf ''g'') (callOf ''h''))"

text \<open>\<^verbatim>\<open>a ?? f()\<close>\<close>

definition nullishCall :: expr where
  "nullishCall = LogicalExpression Nullish (Identifier ''a'') (callOf ''f'')"

text \<open>\<^verbatim>\<open>a==1 ? ((p ? q : r) ? x() : y()) : a==2 ? g() : a==3 ? h() : k()\<close>\<close>

definition chainWithInnerTernary :: expr where
  "chainWithInnerTernary =
     ConditionalExpression (equalsNumber ''a'' ''1'')
       (ConditionalExpression
          (ConditionalExpression (Identifier ''p'') (Identifier ''q'') (Identifier ''r''))
          (callOf ''x'') (callOf ''y''))
       (ConditionalExpression (equalsNumber ''a'' ''2'') (callOf ''g'')
          (ConditionalExpression (equalsNumber ''a'' ''3'') (callOf ''h'') (callOf ''k'')))"

text \<open>\<^verbatim>\<open>a == b || b == a\<close>\<close>

definition swappedPair :: expr where
  "swappedPair =
     LogicalExpression Or
       (BinaryExpression ''=='' (Identifier ''a'') (Identifier ''b''))
       (BinaryExpression ''=='' (Identifier ''b'') (Identifier ''a''))"

section \<open>The decision tree builder\<close>

text \<open>
  Claim C1. \<open>makeDecisionTree\<close> is defined on every expression (a recursive function
  on the structure of the expression, which ends), and follows these rules: a
  conditional gives its test with the trees of both arms; \<^verbatim>\<open>&&\<close> gives the left operand
  with the tree of the right one as the true branch and no false branch; \<^verbatim>\<open>||\<close> gives
  the left operand with no true branch and the tree of the right one as the false
  branch; \<^verbatim>\<open>??\<close> gives the test \<^verbatim>\<open>left == null\<close> with the tree of the right operand as
  the true branch and no false branch; every other expression gives a leaf that holds
  the expression.
\<close>

theorem makeDecisionTree_rules:
  "makeDecisionTree (ConditionalExpression test cons alt) =
     DecisionTree test (Some (makeDecisionTree cons)) (Some (makeDecisionTree alt))
   \<and> makeDecisionTree (LogicalExpression And left right) =
     DecisionTree left (Some (makeDecisionTree right)) None
   \<and> makeDecisionTree (LogicalExpression Or left right) =
     DecisionTree left None (Some (makeDecisionTree right))
   \<and> makeDecisionTree (LogicalExpression Nullish left right) =
     DecisionTree (BinaryExpression ''=='' left (Identifier ''null''))
       (Some (makeDecisionTree right)) None
   \<and> (\<not> isConditionalExpression e \<and> \<not> isLogicalExpression e
        \<longrightarrow> makeDecisionTree e = DecisionTree e None None)"
  by (cases e) simp_all

theorem makeDecisionTree_rules_witness:
  "\<not> isConditionalExpression (callOf ''f'') \<and> \<not> isLogicalExpression (callOf ''f'')
   \<and> makeDecisionTree (callOf ''f'') = DecisionTree (callOf ''f'') None None"
  using makeDecisionTree_rules [where e = "callOf ''f''"]
  by (simp add: callOf_def)

section \<open>The threshold of the switch synthesis\<close>

text \<open>
  The count that \<^verbatim>\<open>countBaseVariableUsedInAllBranches\<close> returns is the sentinel or the
  length of a valid chain added to the accumulator, and no valid chain is longer.
\<close>

lemma list_ex_testsBase:
  "list_ex (\<lambda>node. areNodesEqual S node b) (extractComparisonBases S c) = testsBase S b c"
  by (simp add: testsBase_def areNodesEqual_def)

lemma count_lower:
  "validChain S b t n \<Longrightarrow> k + int n \<le> countBaseVariableUsedInAllBranches S b t k"
proof (induction arbitrary: k rule: validChain.induct)
  case (atLeaf cond)
  show ?case by simp
next
  case (viaTrue cond t n fb)
  have "k + 1 + int n \<le> countBaseVariableUsedInAllBranches S b t (k + 1)"
    using viaTrue.IH [of "k + 1"] .
  with viaTrue.hyps(1) show ?case
    by (cases fb) (simp_all add: list_ex_testsBase)
next
  case (viaFalse cond f n tb)
  have "k + 1 + int n \<le> countBaseVariableUsedInAllBranches S b f (k + 1)"
    using viaFalse.IH [of "k + 1"] .
  with viaFalse.hyps(1) show ?case
    by (cases tb) (simp_all add: list_ex_testsBase)
qed

text \<open>One step of the descent: a child's count, when it is not the sentinel, extends a chain.\<close>

lemma chain_step:
  assumes "c = - 1 \<or> (\<exists>n. validChain S b child n \<and> c = k + 1 + int n)"
    and "\<And>n. validChain S b child n \<Longrightarrow> validChain S b tree (Suc n)"
  shows "c = - 1 \<or> (\<exists>n. validChain S b tree n \<and> c = k + int n)"
proof -
  from assms(1) show ?thesis
  proof
    assume "c = - 1" then show ?thesis by simp
  next
    assume "\<exists>n. validChain S b child n \<and> c = k + 1 + int n"
    then obtain n where n: "validChain S b child n" "c = k + 1 + int n" by blast
    from n(1) have "validChain S b tree (Suc n)" by (rule assms(2))
    moreover from n(2) have "c = k + int (Suc n)" by simp
    ultimately show ?thesis by blast
  qed
qed

lemma count_chain:
  "countBaseVariableUsedInAllBranches S b t k = - 1
   \<or> (\<exists>n. validChain S b t n \<and> countBaseVariableUsedInAllBranches S b t k = k + int n)"
proof (induction S b t k rule: countBaseVariableUsedInAllBranches.induct)
  case (1 S b cond k)
  have "validChain S b (DecisionTree cond None None) 0" by (rule atLeaf)
  then show ?case by auto
next
  case (2 S b cond t f k)
  show ?case
  proof (cases "testsBase S b cond")
    case False
    then show ?thesis by (simp add: list_ex_testsBase)
  next
    case True
    let ?ct = "countBaseVariableUsedInAllBranches S b t (k + 1)"
    let ?cf = "countBaseVariableUsedInAllBranches S b f (k + 1)"
    let ?tree = "DecisionTree cond (Some t) (Some f)"
    have eq: "countBaseVariableUsedInAllBranches S b ?tree k = max ?ct ?cf"
      using True by (simp add: list_ex_testsBase)
    have iht: "?ct = - 1 \<or> (\<exists>n. validChain S b t n \<and> ?ct = k + 1 + int n)"
      using 2(1) True by (simp add: list_ex_testsBase)
    have ihf: "?cf = - 1 \<or> (\<exists>n. validChain S b f n \<and> ?cf = k + 1 + int n)"
      using 2(2) True by (simp add: list_ex_testsBase)
    have t: "?ct = - 1 \<or> (\<exists>n. validChain S b ?tree n \<and> ?ct = k + int n)"
      using iht viaTrue [OF True] by (rule chain_step)
    have f: "?cf = - 1 \<or> (\<exists>n. validChain S b ?tree n \<and> ?cf = k + int n)"
      using ihf viaFalse [OF True] by (rule chain_step)
    show ?thesis
    proof (cases "?ct \<le> ?cf")
      case True
      then have "max ?ct ?cf = ?cf" by simp
      with f eq show ?thesis by simp
    next
      case False
      then have "max ?ct ?cf = ?ct" by simp
      with t eq show ?thesis by simp
    qed
  qed
next
  case (3 S b cond t k)
  show ?case
  proof (cases "testsBase S b cond")
    case False
    then show ?thesis by (simp add: list_ex_testsBase)
  next
    case True
    let ?ct = "countBaseVariableUsedInAllBranches S b t (k + 1)"
    let ?tree = "DecisionTree cond (Some t) None"
    have eq: "countBaseVariableUsedInAllBranches S b ?tree k = ?ct"
      using True by (simp add: list_ex_testsBase)
    have "?ct = - 1 \<or> (\<exists>n. validChain S b t n \<and> ?ct = k + 1 + int n)"
      using 3 True by (simp add: list_ex_testsBase)
    then have "?ct = - 1 \<or> (\<exists>n. validChain S b ?tree n \<and> ?ct = k + int n)"
      using viaTrue [OF True] by (rule chain_step)
    with eq show ?thesis by simp
  qed
next
  case (4 S b cond f k)
  show ?case
  proof (cases "testsBase S b cond")
    case False
    then show ?thesis by (simp add: list_ex_testsBase)
  next
    case True
    let ?cf = "countBaseVariableUsedInAllBranches S b f (k + 1)"
    let ?tree = "DecisionTree cond None (Some f)"
    have eq: "countBaseVariableUsedInAllBranches S b ?tree k = ?cf"
      using True by (simp add: list_ex_testsBase)
    have "?cf = - 1 \<or> (\<exists>n. validChain S b f n \<and> ?cf = k + 1 + int n)"
      using 4 True by (simp add: list_ex_testsBase)
    then have "?cf = - 1 \<or> (\<exists>n. validChain S b ?tree n \<and> ?cf = k + int n)"
      using viaFalse [OF True] by (rule chain_step)
    with eq show ?thesis by simp
  qed
qed

lemma count_threshold:
  "SWITCH_THRESHOLD \<le> countBaseVariableUsedInAllBranches S b t 0
   \<longleftrightarrow> (\<exists>n. 3 \<le> n \<and> validChain S b t n)"
proof
  assume a: "SWITCH_THRESHOLD \<le> countBaseVariableUsedInAllBranches S b t 0"
  then have "countBaseVariableUsedInAllBranches S b t 0 \<noteq> - 1" by (simp add: SWITCH_THRESHOLD_def)
  with count_chain [of S b t 0] obtain n where
    n: "validChain S b t n" "countBaseVariableUsedInAllBranches S b t 0 = int n" by auto
  with a have "3 \<le> n" by (simp add: SWITCH_THRESHOLD_def)
  with n(1) show "\<exists>n. 3 \<le> n \<and> validChain S b t n" by blast
next
  assume "\<exists>n. 3 \<le> n \<and> validChain S b t n"
  then obtain n where n: "3 \<le> n" "validChain S b t n" by blast
  from count_lower [OF n(2), of 0] n(1) show "SWITCH_THRESHOLD \<le> countBaseVariableUsedInAllBranches S b t 0"
    by (simp add: SWITCH_THRESHOLD_def)
qed

lemma count_sentinel:
  "\<not> testsBase S b c \<Longrightarrow> tb \<noteq> None \<or> fb \<noteq> None \<Longrightarrow>
     countBaseVariableUsedInAllBranches S b (DecisionTree c tb fb) k = - 1"
  by (cases tb; cases fb) (simp_all add: list_ex_testsBase)

lemma count_both:
  "testsBase S b c \<Longrightarrow>
     countBaseVariableUsedInAllBranches S b (DecisionTree c (Some t) (Some f)) k =
       max (countBaseVariableUsedInAllBranches S b t (k + 1))
           (countBaseVariableUsedInAllBranches S b f (k + 1))"
  by (simp add: list_ex_testsBase)

lemma switch_by_chain:
  "renderDecisionTreeWithSwitch S tree =
     (case find (\<lambda>b. \<exists>n. 3 \<le> n \<and> validChain S b tree n)
             (extractComparisonBases S (condition tree)) of
        None \<Rightarrow> None
      | Some b \<Rightarrow> Some (SwitchStatement b (collectSwitchCase S tree b)))"
  by (cases "extractComparisonBases S (condition tree)")
     (simp_all add: renderDecisionTreeWithSwitch_def count_threshold)

lemmas example_defs = callOf_def equalsNumber_def equalsString_def
lemmas switch_defs = renderDecisionTreeWithSwitch_def areNodesEqual_def SWITCH_THRESHOLD_def

lemma chainOfThree_switch:
  "renderDecisionTree S (makeDecisionTree chainOfThree) =
     [SwitchStatement (Identifier ''a'')
        [SwitchCase (Some (Literal (NumericLiteral ''1''))) [ExpressionStatement (callOf ''f''), BreakStatement],
         SwitchCase (Some (Literal (NumericLiteral ''2''))) [ExpressionStatement (callOf ''g''), BreakStatement],
         SwitchCase (Some (Literal (NumericLiteral ''3''))) [ExpressionStatement (callOf ''h''), BreakStatement],
         SwitchCase None [ExpressionStatement (callOf ''k''), BreakStatement]]]"
  by (simp add: chainOfThree_def example_defs switch_defs)

lemma chainOfTwo_no_switch:
  "renderDecisionTreeWithSwitch S (makeDecisionTree chainOfTwo) = None"
  by (simp add: chainOfTwo_def example_defs switch_defs)

lemma chainOfTwo_if:
  "renderDecisionTree S (makeDecisionTree chainOfTwo) =
     [IfStatement (equalsNumber ''a'' ''1'') (BlockStatement [ExpressionStatement (callOf ''f'')])
        (Some (IfStatement (equalsNumber ''a'' ''2'') (BlockStatement [ExpressionStatement (callOf ''g'')])
           (Some (BlockStatement [ExpressionStatement (callOf ''h'')]))))]"
  by (simp add: chainOfTwo_def example_defs switch_defs)

text \<open>
  Claim C2. A base passes the threshold check exactly when some valid chain through
  the tree (from the root to a leaf, every internal node on it testing the base) passes
  at least 3 internal nodes; an internal node that does not test the base counts as
  \<open>-1\<close>, and a node with both branches takes the greater count of its two children.
  The switch synthesis takes the first comparison base of the root's condition that
  passes the check.
  \<^verbatim>\<open>a==1?f():a==2?g():a==3?h():k()\<close> becomes a switch on \<^verbatim>\<open>a\<close> with the cases 1, 2, 3 and
  a default; for \<^verbatim>\<open>a==1?f():a==2?g():h()\<close> no switch is made and the rendering is an
  \<^verbatim>\<open>if\<close> with an \<^verbatim>\<open>else if\<close>.
\<close>

theorem switch_threshold:
  "(SWITCH_THRESHOLD \<le> countBaseVariableUsedInAllBranches S b tree 0
      \<longleftrightarrow> (\<exists>n. 3 \<le> n \<and> validChain S b tree n))
   \<and> (\<not> testsBase S b c \<and> (tb \<noteq> None \<or> fb \<noteq> None)
        \<longrightarrow> countBaseVariableUsedInAllBranches S b (DecisionTree c tb fb) k = - 1)
   \<and> (testsBase S b c
        \<longrightarrow> countBaseVariableUsedInAllBranches S b (DecisionTree c (Some t) (Some f)) k =
              max (countBaseVariableUsedInAllBranches S b t (k + 1))
                  (countBaseVariableUsedInAllBranches S b f (k + 1)))
   \<and> renderDecisionTreeWithSwitch S tree =
       (case find (\<lambda>b. \<exists>n. 3 \<le> n \<and> validChain S b tree n)
               (extractComparisonBases S (condition tree)) of
          None \<Rightarrow> None
        | Some b \<Rightarrow> Some (SwitchStatement b (collectSwitchCase S tree b)))
   \<and> renderDecisionTree S (makeDecisionTree chainOfThree) =
       [SwitchStatement (Identifier ''a'')
          [SwitchCase (Some (Literal (NumericLiteral ''1'')))
             [ExpressionStatement (callOf ''f''), BreakStatement],
           SwitchCase (Some (Literal (NumericLiteral ''2'')))
             [ExpressionStatement (callOf ''g''), BreakStatement],
           SwitchCase (Some (Literal (NumericLiteral ''3'')))
             [ExpressionStatement (callOf ''h''), BreakStatement],
           SwitchCase None [ExpressionStatement (callOf ''k''), BreakStatement]]]
   \<and> renderDecisionTreeWithSwitch S (makeDecisionTree chainOfTwo) = None
   \<and> renderDecisionTree S (makeDecisionTree chainOfTwo) =
       [IfStatement (equalsNumber ''a'' ''1'') (BlockStatement [ExpressionStatement (callOf ''f'')])
          (Some (IfStatement (equalsNumber ''a'' ''2'')
                   (BlockStatement [ExpressionStatement (callOf ''g'')])
                   (Some (BlockStatement [ExpressionStatement (callOf ''h'')]))))]"
  using count_threshold [of S b tree] count_sentinel [of S b c tb fb k]
    count_both [of S b c t f k] switch_by_chain [of S tree]
    chainOfThree_switch [of S] chainOfTwo_no_switch [of S] chainOfTwo_if [of S]
  by blast

theorem switch_threshold_witness:
  "SWITCH_THRESHOLD \<le> countBaseVariableUsedInAllBranches printExpr (Identifier ''a'')
      (makeDecisionTree chainOfThree) 0
   \<and> (\<exists>n. 3 \<le> n \<and> validChain printExpr (Identifier ''a'') (makeDecisionTree chainOfThree) n)
   \<and> \<not> testsBase printExpr (Identifier ''a'') (Identifier ''p'')
   \<and> countBaseVariableUsedInAllBranches printExpr (Identifier ''a'')
       (DecisionTree (Identifier ''p'') (Some (DecisionTree (callOf ''f'') None None)) None) 0 = - 1
   \<and> testsBase printExpr (Identifier ''a'') (equalsNumber ''a'' ''1'')
   \<and> countBaseVariableUsedInAllBranches printExpr (Identifier ''a'')
       (DecisionTree (equalsNumber ''a'' ''1'') (Some (DecisionTree (callOf ''f'') None None))
          (Some (DecisionTree (callOf ''g'') None None))) 0 = 1"
proof -
  let ?a = "Identifier ''a''"
  let ?f = "DecisionTree (callOf ''f'') None None"
  let ?g = "DecisionTree (callOf ''g'') None None"
  have three: "SWITCH_THRESHOLD \<le> countBaseVariableUsedInAllBranches printExpr ?a
      (makeDecisionTree chainOfThree) 0"
    by (simp add: chainOfThree_def example_defs switch_defs)
  have no: "\<not> testsBase printExpr ?a (Identifier ''p'')"
    by (simp add: testsBase_def)
  have yes: "testsBase printExpr ?a (equalsNumber ''a'' ''1'')"
    by (simp add: testsBase_def example_defs)
  note inst = switch_threshold [of printExpr ?a]
  have chain: "\<exists>n. 3 \<le> n \<and> validChain printExpr ?a (makeDecisionTree chainOfThree) n"
    using three inst [of "makeDecisionTree chainOfThree"] by blast
  have sentinel: "countBaseVariableUsedInAllBranches printExpr ?a
       (DecisionTree (Identifier ''p'') (Some ?f) None) 0 = - 1"
    using no inst [where c = "Identifier ''p''" and tb = "Some ?f" and fb = None and k = 0]
    by blast
  have "countBaseVariableUsedInAllBranches printExpr ?a
       (DecisionTree (equalsNumber ''a'' ''1'') (Some ?f) (Some ?g)) 0 =
     max (countBaseVariableUsedInAllBranches printExpr ?a ?f (0 + 1))
         (countBaseVariableUsedInAllBranches printExpr ?a ?g (0 + 1))"
    using yes inst [where c = "equalsNumber ''a'' ''1''" and t = ?f and f = ?g and k = 0]
    by blast
  then have both: "countBaseVariableUsedInAllBranches printExpr ?a
       (DecisionTree (equalsNumber ''a'' ''1'') (Some ?f) (Some ?g)) 0 = 1"
    by simp
  from three chain no sentinel yes both show ?thesis by blast
qed

section \<open>Early returns\<close>

lemma early_both:
  "renderDecisionTreeWithEarlyReturn (DecisionTree c (Some t) (Some f)) =
     IfStatement c (BlockStatement (renderDecisionTreeWithEarlyReturn t)) None
       # renderDecisionTreeWithEarlyReturn f"
  by simp

lemma plainTernaries_early:
  "renderDecisionTreeWithEarlyReturn (makeDecisionTree plainTernaries) =
     [IfStatement (Identifier ''a'') (BlockStatement [ReturnStatement (Some (callOf ''f''))]) None,
      IfStatement (Identifier ''b'') (BlockStatement [ReturnStatement (Some (callOf ''g''))]) None,
      ReturnStatement (Some (callOf ''h''))]"
  by (simp add: plainTernaries_def example_defs)

lemma plainTernaries_return:
  "transformAST S [ReturnStatement (Some plainTernaries)] =
     [IfStatement (Identifier ''a'') (BlockStatement [ReturnStatement (Some (callOf ''f''))]) None,
      IfStatement (Identifier ''b'') (BlockStatement [ReturnStatement (Some (callOf ''g''))]) None,
      ReturnStatement (Some (callOf ''h''))]"
  by (simp add: transformAST_def plainTernaries_def example_defs)

text \<open>
  Claim C5. For a tree with both branches the renderer for returns gives an \<^verbatim>\<open>if\<close> on
  the condition, with no \<^verbatim>\<open>else\<close>, around the rendering of the true branch, and after
  it the statements of the false branch at the same level.
  \<^verbatim>\<open>return a ? f() : b ? g() : h()\<close> becomes two \<^verbatim>\<open>if\<close> statements without \<^verbatim>\<open>else\<close> and
  then \<^verbatim>\<open>return h()\<close>.
\<close>

theorem early_return_flattening:
  "renderDecisionTreeWithEarlyReturn (DecisionTree c (Some t) (Some f)) =
     IfStatement c (BlockStatement (renderDecisionTreeWithEarlyReturn t)) None
       # renderDecisionTreeWithEarlyReturn f
   \<and> renderDecisionTreeWithEarlyReturn (makeDecisionTree plainTernaries) =
     [IfStatement (Identifier ''a'') (BlockStatement [ReturnStatement (Some (callOf ''f''))]) None,
      IfStatement (Identifier ''b'') (BlockStatement [ReturnStatement (Some (callOf ''g''))]) None,
      ReturnStatement (Some (callOf ''h''))]
   \<and> transformAST S [ReturnStatement (Some plainTernaries)] =
     [IfStatement (Identifier ''a'') (BlockStatement [ReturnStatement (Some (callOf ''f''))]) None,
      IfStatement (Identifier ''b'') (BlockStatement [ReturnStatement (Some (callOf ''g''))]) None,
      ReturnStatement (Some (callOf ''h''))]"
  using early_both [of c t f] plainTernaries_early plainTernaries_return [of S] by blast

section \<open>The renderer of expression statements\<close>

lemma render_singleton: "\<exists>s. renderDecisionTree S t = [s]"
  by (cases t) (auto split: option.splits simp: Let_def)

lemma switch_is_switch:
  "renderDecisionTreeWithSwitch S t = Some s \<Longrightarrow> isSwitchStatement s"
  by (auto simp: renderDecisionTreeWithSwitch_def Let_def split: if_splits option.splits)

lemma render_kind:
  "\<exists>s. renderDecisionTree S t = [s]
        \<and> (isSwitchStatement s \<or> isIfStatement s \<or> isExpressionStatement s)"
proof (cases t)
  case (DecisionTree c tb fb)
  show ?thesis
  proof (cases "renderDecisionTreeWithSwitch S t")
    case (Some sw)
    then have "isSwitchStatement sw" by (rule switch_is_switch)
    with Some DecisionTree show ?thesis by simp
  next
    case None
    with DecisionTree show ?thesis
      by (cases tb; cases fb) (simp_all add: Let_def)
  qed
qed

lemma render_both:
  assumes "renderDecisionTreeWithSwitch S (DecisionTree c (Some t) (Some f)) = None"
  shows "\<exists>s. renderDecisionTree S f = [s]
     \<and> renderDecisionTree S (DecisionTree c (Some t) (Some f)) =
         [IfStatement c (BlockStatement (renderDecisionTree S t))
            (Some (if isIfStatement s then s else BlockStatement (renderDecisionTree S f)))]"
proof -
  obtain s where s: "renderDecisionTree S f = [s]"
    using render_singleton [of S f] by blast
  with assms have "renderDecisionTree S (DecisionTree c (Some t) (Some f)) =
         [IfStatement c (BlockStatement (renderDecisionTree S t))
            (Some (if isIfStatement s then s else BlockStatement (renderDecisionTree S f)))]"
    by simp
  with s show ?thesis by blast
qed

lemma render_both_rule:
  assumes "renderDecisionTreeWithSwitch S (DecisionTree c (Some t) (Some f)) = None"
  shows "renderDecisionTree S (DecisionTree c (Some t) (Some f)) =
     (let falseBranchStatements = renderDecisionTree S f
      in if length falseBranchStatements = 1 \<and> isIfStatement (hd falseBranchStatements)
         then [IfStatement c (BlockStatement (renderDecisionTree S t))
                 (Some (hd falseBranchStatements))]
         else [IfStatement c (BlockStatement (renderDecisionTree S t))
                 (Some (BlockStatement falseBranchStatements))])"
  using assms by simp

lemma plainTernaries_if:
  "renderDecisionTree S (makeDecisionTree plainTernaries) =
     [IfStatement (Identifier ''a'') (BlockStatement [ExpressionStatement (callOf ''f'')])
        (Some (IfStatement (Identifier ''b'') (BlockStatement [ExpressionStatement (callOf ''g'')])
           (Some (BlockStatement [ExpressionStatement (callOf ''h'')]))))]"
  by (simp add: plainTernaries_def example_defs switch_defs)

text \<open>
  Claim C4. The renderer of expression statements comes to its rule for a tree with
  both branches when the switch synthesis has given nothing for that tree. The result
  is then decided by the rendering of the false side: when that rendering is exactly
  one \<^verbatim>\<open>if\<close> statement, it is itself the \<^verbatim>\<open>else\<close> of the one \<^verbatim>\<open>if\<close> that is returned
  (an \<^verbatim>\<open>else if\<close>), and otherwise the rendering of the false side goes into a block,
  which is the \<^verbatim>\<open>else\<close>. The rendering of the false side is always one statement, so
  the \<^verbatim>\<open>else\<close> is that statement or a block around it. For \<^verbatim>\<open>a ? f() : b ? g() : h()\<close>
  no switch is made and the result is one \<^verbatim>\<open>if\<close> whose alternate is an \<^verbatim>\<open>if\<close>, not a
  block.
\<close>

theorem else_if_flattening:
  "(renderDecisionTreeWithSwitch S (DecisionTree c (Some t) (Some f)) = None \<longrightarrow>
      renderDecisionTree S (DecisionTree c (Some t) (Some f)) =
        (let falseBranchStatements = renderDecisionTree S f
         in if length falseBranchStatements = 1 \<and> isIfStatement (hd falseBranchStatements)
            then [IfStatement c (BlockStatement (renderDecisionTree S t))
                    (Some (hd falseBranchStatements))]
            else [IfStatement c (BlockStatement (renderDecisionTree S t))
                    (Some (BlockStatement falseBranchStatements))]))
   \<and> (renderDecisionTreeWithSwitch S (DecisionTree c (Some t) (Some f)) = None \<longrightarrow>
      (\<exists>s. renderDecisionTree S f = [s]
         \<and> renderDecisionTree S (DecisionTree c (Some t) (Some f)) =
             [IfStatement c (BlockStatement (renderDecisionTree S t))
                (Some (if isIfStatement s then s
                       else BlockStatement (renderDecisionTree S f)))]))
   \<and> renderDecisionTreeWithSwitch S (makeDecisionTree plainTernaries) = None
   \<and> renderDecisionTree S (makeDecisionTree plainTernaries) =
       [IfStatement (Identifier ''a'') (BlockStatement [ExpressionStatement (callOf ''f'')])
          (Some (IfStatement (Identifier ''b'')
                   (BlockStatement [ExpressionStatement (callOf ''g'')])
                   (Some (BlockStatement [ExpressionStatement (callOf ''h'')]))))]"
proof -
  have "renderDecisionTreeWithSwitch S (makeDecisionTree plainTernaries) = None"
    by (simp add: plainTernaries_def example_defs switch_defs)
  then show ?thesis
    using render_both_rule [of S c t f] render_both [of S c t f] plainTernaries_if [of S]
    by blast
qed

theorem else_if_flattening_witness:
  "renderDecisionTreeWithSwitch printExpr
      (DecisionTree (Identifier ''a'') (Some (DecisionTree (callOf ''f'') None None))
         (Some (DecisionTree (Identifier ''b'') (Some (DecisionTree (callOf ''g'') None None))
                  (Some (DecisionTree (callOf ''h'') None None))))) = None
   \<and> renderDecisionTree printExpr
      (DecisionTree (Identifier ''a'') (Some (DecisionTree (callOf ''f'') None None))
         (Some (DecisionTree (Identifier ''b'') (Some (DecisionTree (callOf ''g'') None None))
                  (Some (DecisionTree (callOf ''h'') None None))))) =
       [IfStatement (Identifier ''a'') (BlockStatement [ExpressionStatement (callOf ''f'')])
          (Some (IfStatement (Identifier ''b'')
                   (BlockStatement [ExpressionStatement (callOf ''g'')])
                   (Some (BlockStatement [ExpressionStatement (callOf ''h'')]))))]"
proof -
  let ?f = "DecisionTree (Identifier ''b'') (Some (DecisionTree (callOf ''g'') None None))
              (Some (DecisionTree (callOf ''h'') None None))"
  let ?t = "DecisionTree (callOf ''f'') None None"
  let ?tree = "DecisionTree (Identifier ''a'') (Some ?t) (Some ?f)"
  let ?inner = "IfStatement (Identifier ''b'') (BlockStatement [ExpressionStatement (callOf ''g'')])
         (Some (BlockStatement [ExpressionStatement (callOf ''h'')]))"
  have none: "renderDecisionTreeWithSwitch printExpr ?tree = None"
    by (simp add: switch_defs)
  have f: "renderDecisionTree printExpr ?f = [?inner]"
    by (simp add: example_defs switch_defs)
  have t: "renderDecisionTree printExpr ?t = [ExpressionStatement (callOf ''f'')]"
    by (simp add: example_defs switch_defs)
  from none else_if_flattening [of printExpr "Identifier ''a''" ?t ?f]
  obtain s where s: "renderDecisionTree printExpr ?f = [s]"
    and r: "renderDecisionTree printExpr ?tree =
          [IfStatement (Identifier ''a'') (BlockStatement (renderDecisionTree printExpr ?t))
             (Some (if isIfStatement s then s
                    else BlockStatement (renderDecisionTree printExpr ?f)))]"
    by blast
  from s f have "s = ?inner" by simp
  with r have "renderDecisionTree printExpr ?tree =
          [IfStatement (Identifier ''a'') (BlockStatement (renderDecisionTree printExpr ?t))
             (Some ?inner)]"
    by simp
  with t have "renderDecisionTree printExpr ?tree =
          [IfStatement (Identifier ''a'') (BlockStatement [ExpressionStatement (callOf ''f'')])
             (Some ?inner)]"
    by (simp only:)
  with none show ?thesis by blast
qed

text \<open>
  Claim C10. The rendering of any tree in the place of an expression statement is
  one statement, which is a switch, an \<^verbatim>\<open>if\<close> or an expression statement; the renderer
  for returns gives three statements for \<^verbatim>\<open>a ? f() : b ? g() : h()\<close>.
\<close>

theorem render_one_statement:
  "(\<exists>s. renderDecisionTree S t = [s]
        \<and> (isSwitchStatement s \<or> isIfStatement s \<or> isExpressionStatement s))
   \<and> length (renderDecisionTreeWithEarlyReturn (makeDecisionTree plainTernaries)) = 3"
  using render_kind [of S t] plainTernaries_early by simp

theorem render_one_statement_witness:
  "\<exists>s. renderDecisionTree printExpr (makeDecisionTree chainOfTwo) = [s]
        \<and> (isSwitchStatement s \<or> isIfStatement s \<or> isExpressionStatement s)"
  using render_one_statement [of printExpr "makeDecisionTree chainOfTwo"] by blast

section \<open>Nullish coalescing\<close>

lemma nullish_render:
  "renderDecisionTree S (makeDecisionTree nullishCall) =
     [IfStatement (BinaryExpression ''=='' (Identifier ''a'') (Identifier ''null''))
        (BlockStatement [ExpressionStatement (callOf ''f'')]) None]"
  by (simp add: nullishCall_def example_defs switch_defs)

lemma nullish_transform:
  "transformAST S [ExpressionStatement nullishCall] =
     [IfStatement (BinaryExpression ''=='' (Identifier ''a'') (Identifier ''null''))
        (BlockStatement [ExpressionStatement (callOf ''f'')]) None]"
  by (simp add: transformAST_def nullishCall_def example_defs switch_defs)

text \<open>
  Claim C7. The expression statement \<^verbatim>\<open>a ?? f()\<close> becomes \<^verbatim>\<open>if (a == null) { f() }\<close>, an
  \<^verbatim>\<open>if\<close> with no \<^verbatim>\<open>else\<close>.
\<close>

theorem nullish_normalization:
  "renderDecisionTree S (makeDecisionTree nullishCall) =
     [IfStatement (BinaryExpression ''=='' (Identifier ''a'') (Identifier ''null''))
        (BlockStatement [ExpressionStatement (callOf ''f'')]) None]
   \<and> transformAST S [ExpressionStatement nullishCall] =
     [IfStatement (BinaryExpression ''=='' (Identifier ''a'') (Identifier ''null''))
        (BlockStatement [ExpressionStatement (callOf ''f'')]) None]"
  using nullish_render [of S] nullish_transform [of S] by blast

section \<open>Grouping of cases\<close>

lemma eitherOfTwo_count:
  "countBaseVariableUsedInAllBranches S (Identifier ''a'') (makeDecisionTree eitherOfTwo) 0 = 1"
  by (simp add: eitherOfTwo_def example_defs switch_defs)

lemma eitherOfTwo_no_switch:
  "renderDecisionTreeWithSwitch S (makeDecisionTree eitherOfTwo) = None"
  by (simp add: eitherOfTwo_def example_defs switch_defs)

lemma eitherOfTwo_transform:
  "transformAST S [ExpressionStatement eitherOfTwo] =
     [IfStatement (LogicalExpression Or (equalsString ''a'' ''x'') (equalsString ''a'' ''y''))
        (BlockStatement [ExpressionStatement (callOf ''f'')])
        (Some (BlockStatement [ExpressionStatement (callOf ''g'')]))]"
  by (simp add: transformAST_def eitherOfTwo_def example_defs switch_defs)

lemma eitherOfTwo_cases:
  "collectSwitchCase S (makeDecisionTree eitherOfTwo) (Identifier ''a'') =
     [SwitchCase (Some (Literal (StringLiteral ''x''))) [],
      SwitchCase (Some (Literal (StringLiteral ''y'')))
        [ExpressionStatement (callOf ''f''), BreakStatement],
      SwitchCase None [ExpressionStatement (callOf ''g''), BreakStatement]]"
  by (simp add: eitherOfTwo_def example_defs switch_defs)

lemma chainWithEither_transform:
  "transformAST S [ExpressionStatement chainWithEither] =
     [SwitchStatement (Identifier ''a'')
        [SwitchCase (Some (Literal (NumericLiteral ''1'')))
           [ExpressionStatement (callOf ''f''), BreakStatement],
         SwitchCase (Some (Literal (NumericLiteral ''2'')))
           [ExpressionStatement (callOf ''g''), BreakStatement],
         SwitchCase (Some (Literal (StringLiteral ''x''))) [],
         SwitchCase (Some (Literal (StringLiteral ''y'')))
           [ExpressionStatement (callOf ''h''), BreakStatement],
         SwitchCase None [ExpressionStatement (callOf ''k''), BreakStatement]]]"
  by (simp add: transformAST_def chainWithEither_def example_defs switch_defs)

text \<open>
  Claim C3, as amended. For the expression statement \<^verbatim>\<open>a=='x'||a=='y'?f():g()\<close> no
  switch is made: the only chain for \<^verbatim>\<open>a\<close> passes one internal node, below the threshold
  of 3, and the statement becomes \<^verbatim>\<open>if (a=='x'||a=='y') { f() } else { g() }\<close>. The
  collection of cases on this tree for the base \<^verbatim>\<open>a\<close> gives the labels \<^verbatim>\<open>'x'\<close> and \<^verbatim>\<open>'y'\<close>
  with one body, \<^verbatim>\<open>f()\<close> and a break, and then a default with \<^verbatim>\<open>g()\<close>; the grouping
  shows in the output of a chain that reaches the threshold, as
  \<^verbatim>\<open>a==1?f():a==2?g():a=='x'||a=='y'?h():k()\<close> does.
\<close>

theorem fallthrough_grouping:
  "countBaseVariableUsedInAllBranches S (Identifier ''a'') (makeDecisionTree eitherOfTwo) 0 = 1
   \<and> renderDecisionTreeWithSwitch S (makeDecisionTree eitherOfTwo) = None
   \<and> transformAST S [ExpressionStatement eitherOfTwo] =
       [IfStatement (LogicalExpression Or (equalsString ''a'' ''x'') (equalsString ''a'' ''y''))
          (BlockStatement [ExpressionStatement (callOf ''f'')])
          (Some (BlockStatement [ExpressionStatement (callOf ''g'')]))]
   \<and> collectSwitchCase S (makeDecisionTree eitherOfTwo) (Identifier ''a'') =
       [SwitchCase (Some (Literal (StringLiteral ''x''))) [],
        SwitchCase (Some (Literal (StringLiteral ''y'')))
          [ExpressionStatement (callOf ''f''), BreakStatement],
        SwitchCase None [ExpressionStatement (callOf ''g''), BreakStatement]]
   \<and> transformAST S [ExpressionStatement chainWithEither] =
       [SwitchStatement (Identifier ''a'')
          [SwitchCase (Some (Literal (NumericLiteral ''1'')))
             [ExpressionStatement (callOf ''f''), BreakStatement],
           SwitchCase (Some (Literal (NumericLiteral ''2'')))
             [ExpressionStatement (callOf ''g''), BreakStatement],
           SwitchCase (Some (Literal (StringLiteral ''x''))) [],
           SwitchCase (Some (Literal (StringLiteral ''y'')))
             [ExpressionStatement (callOf ''h''), BreakStatement],
           SwitchCase None [ExpressionStatement (callOf ''k''), BreakStatement]]]"
  using eitherOfTwo_count [of S] eitherOfTwo_no_switch [of S] eitherOfTwo_transform [of S]
    eitherOfTwo_cases [of S] chainWithEither_transform [of S]
  by blast

text \<open>The claim as it stands: the statement becomes a switch. It becomes an \<^verbatim>\<open>if\<close>.\<close>

theorem eitherOfTwo_is_if:
  "renderDecisionTreeWithSwitch printExpr (makeDecisionTree eitherOfTwo) = None
   \<and> transformAST printExpr [ExpressionStatement eitherOfTwo] =
       [IfStatement (LogicalExpression Or (equalsString ''a'' ''x'') (equalsString ''a'' ''y''))
          (BlockStatement [ExpressionStatement (callOf ''f'')])
          (Some (BlockStatement [ExpressionStatement (callOf ''g'')]))]"
  using eitherOfTwo_no_switch [of printExpr] eitherOfTwo_transform [of printExpr] by blast

section \<open>Comparison bases\<close>

lemma find_nested:
  "find (\<lambda>node1. find (\<lambda>node2. areNodesEqual S node1 node2) rs \<noteq> None) ls
   = find (\<lambda>node1. list_ex (\<lambda>node2. S node1 = S node2) rs) ls"
proof -
  have "\<And>node1. (find (\<lambda>node2. areNodesEqual S node1 node2) rs \<noteq> None)
      = list_ex (\<lambda>node2. S node1 = S node2) rs"
    by (auto simp: find_None_iff list_ex_iff areNodesEqual_def)
  then show ?thesis by simp
qed

lemma bases_equality:
  "operator = ''=='' \<or> operator = ''==='' \<Longrightarrow>
     extractComparisonBases S (BinaryExpression operator L R) = filter isComparisonBase [L, R]"
  by simp

lemma isComparisonBase_iff: "isComparisonBase n \<longleftrightarrow> \<not> isLiteral n \<and> \<not> isCallExpression n"
  by (cases n) simp_all

lemma bases_or_both:
  "extractComparisonBases S l \<noteq> [] \<Longrightarrow> extractComparisonBases S r \<noteq> [] \<Longrightarrow>
     extractComparisonBases S (LogicalExpression Or l r) =
       (case find (\<lambda>node1. list_ex (\<lambda>node2. S node1 = S node2) (extractComparisonBases S r))
               (extractComparisonBases S l) of
          Some b \<Rightarrow> [b]
        | None \<Rightarrow> [])"
  by (simp add: Let_def find_nested del: not_None_eq)

lemma bases_or_one:
  "extractComparisonBases S l = [] \<or> extractComparisonBases S r = [] \<Longrightarrow>
     extractComparisonBases S (LogicalExpression Or l r) = []"
  by (auto simp: Let_def)

lemma bases_other:
  "\<not> isEqualityComparison e \<Longrightarrow> \<not> isOrExpression e \<Longrightarrow> extractComparisonBases S e = []"
  by (induction S e rule: extractComparisonBases.induct) simp_all

lemma swappedPair_bases:
  "extractComparisonBases S swappedPair = [Identifier ''a'']"
  by (simp add: swappedPair_def areNodesEqual_def)

lemma swappedPair_sides:
  "extractComparisonBases S (BinaryExpression ''=='' (Identifier ''a'') (Identifier ''b''))
     = [Identifier ''a'', Identifier ''b'']
   \<and> extractComparisonBases S (BinaryExpression ''=='' (Identifier ''b'') (Identifier ''a''))
     = [Identifier ''b'', Identifier ''a'']"
  by simp

text \<open>
  Claim C6, as amended. For an equality comparison (\<^verbatim>\<open>==\<close> or \<^verbatim>\<open>===\<close>) of \<open>L\<close> and \<open>R\<close>
  the bases are \<open>L\<close> and \<open>R\<close> without the operands that are a literal or a call. For an
  \<^verbatim>\<open>||\<close> whose sides both give bases the result is at most one base: the first base of
  the left side, in its order, that has the same source text as some base of the right
  side, and nothing when there is none. When a side of the \<^verbatim>\<open>||\<close> gives no base, and
  for every other expression, the result is empty.
\<close>

theorem comparison_bases:
  "(operator = ''=='' \<or> operator = ''===''
      \<longrightarrow> extractComparisonBases S (BinaryExpression operator L R)
            = filter isComparisonBase [L, R])
   \<and> (isComparisonBase n \<longleftrightarrow> \<not> isLiteral n \<and> \<not> isCallExpression n)
   \<and> (extractComparisonBases S l \<noteq> [] \<and> extractComparisonBases S r \<noteq> []
      \<longrightarrow> extractComparisonBases S (LogicalExpression Or l r) =
            (case find (\<lambda>node1. list_ex (\<lambda>node2. S node1 = S node2)
                                  (extractComparisonBases S r))
                    (extractComparisonBases S l) of
               Some b \<Rightarrow> [b]
             | None \<Rightarrow> []))
   \<and> (extractComparisonBases S l = [] \<or> extractComparisonBases S r = []
      \<longrightarrow> extractComparisonBases S (LogicalExpression Or l r) = [])
   \<and> (\<not> isEqualityComparison e \<and> \<not> isOrExpression e \<longrightarrow> extractComparisonBases S e = [])"
  using bases_equality [of operator S L R] isComparisonBase_iff [of n]
    bases_or_both [of S l r] bases_or_one [of S l r] bases_other [of e S]
  by blast

theorem comparison_bases_witness:
  "extractComparisonBases printExpr
      (BinaryExpression ''==='' (callOf ''f'') (Identifier ''a'')) = [Identifier ''a'']
   \<and> extractComparisonBases printExpr
      (LogicalExpression Or (BinaryExpression ''=='' (Identifier ''a'') (Identifier ''b''))
         (BinaryExpression ''=='' (Identifier ''b'') (Identifier ''a''))) = [Identifier ''a'']
   \<and> extractComparisonBases printExpr
      (LogicalExpression Or (BinaryExpression ''=='' (Identifier ''a'') (Identifier ''b''))
         (Identifier ''c'')) = []
   \<and> extractComparisonBases printExpr (Identifier ''c'') = []"
proof -
  let ?ab = "BinaryExpression ''=='' (Identifier ''a'') (Identifier ''b'')"
  let ?ba = "BinaryExpression ''=='' (Identifier ''b'') (Identifier ''a'')"
  have ab: "extractComparisonBases printExpr ?ab = [Identifier ''a'', Identifier ''b'']"
    and ba: "extractComparisonBases printExpr ?ba = [Identifier ''b'', Identifier ''a'']"
    and c: "extractComparisonBases printExpr (Identifier ''c'') = []"
    by simp_all
  have 1: "extractComparisonBases printExpr
      (BinaryExpression ''==='' (callOf ''f'') (Identifier ''a'')) = [Identifier ''a'']"
    using comparison_bases [of "''===''" printExpr "callOf ''f''" "Identifier ''a''"]
    by (simp add: callOf_def)
  have 2: "extractComparisonBases printExpr (LogicalExpression Or ?ab ?ba) = [Identifier ''a'']"
    using comparison_bases [where S = printExpr and l = ?ab and r = ?ba]
    by (simp add: ab ba)
  have 3: "extractComparisonBases printExpr (LogicalExpression Or ?ab (Identifier ''c'')) = []"
    using comparison_bases [where S = printExpr and l = ?ab and r = "Identifier ''c''"] c
    by blast
  have 4: "extractComparisonBases printExpr (Identifier ''c'') = []"
    using comparison_bases [where S = printExpr and e = "Identifier ''c''"] by simp
  from 1 2 3 4 show ?thesis by blast
qed

text \<open>
  The claim as it stands keeps the bases present on both sides. In \<^verbatim>\<open>a == b || b == a\<close>
  both \<^verbatim>\<open>a\<close> and \<^verbatim>\<open>b\<close> are bases of both sides, and the result holds \<^verbatim>\<open>a\<close> alone.
\<close>

theorem swappedPair_one_base:
  "extractComparisonBases printExpr
      (BinaryExpression ''=='' (Identifier ''a'') (Identifier ''b''))
     = [Identifier ''a'', Identifier ''b'']
   \<and> extractComparisonBases printExpr
      (BinaryExpression ''=='' (Identifier ''b'') (Identifier ''a''))
     = [Identifier ''b'', Identifier ''a'']
   \<and> extractComparisonBases printExpr swappedPair = [Identifier ''a'']"
  using swappedPair_sides [of printExpr] swappedPair_bases [of printExpr] by blast

section \<open>Case bodies and a second run\<close>

lemma last_and_others:
  "vs \<noteq> [] \<Longrightarrow> (case rev vs of [] \<Rightarrow> None | v # _ \<Rightarrow> Some v) = Some (last vs)
     \<and> rev (tl (rev vs)) = butlast vs"
  by (induction vs rule: rev_induct) simp_all

lemma case_body:
  assumes "extractComparisonValues S c base \<noteq> []"
  shows "collectSwitchCase S (DecisionTree c (Some t) fb) base =
     map (\<lambda>v. SwitchCase (Some v) []) (butlast (extractComparisonValues S c base))
     @ [SwitchCase (Some (last (extractComparisonValues S c base)))
          [ExpressionStatement (condition t), BreakStatement]]
     @ (case fb of
          None \<Rightarrow> []
        | Some f \<Rightarrow>
            if trueBranch f \<noteq> None \<or> falseBranch f \<noteq> None
            then collectSwitchCase S f base
            else [SwitchCase None [ExpressionStatement (condition f), BreakStatement]])"
  using last_and_others [OF assms] by (cases fb) (simp_all add: Let_def)

lemma inner_cases:
  "collectSwitchCase S (makeDecisionTree chainWithInnerTernary) (Identifier ''a'') =
        [SwitchCase (Some (Literal (NumericLiteral ''1'')))
           [ExpressionStatement
              (ConditionalExpression (Identifier ''p'') (Identifier ''q'') (Identifier ''r'')),
            BreakStatement],
         SwitchCase (Some (Literal (NumericLiteral ''2'')))
           [ExpressionStatement (callOf ''g''), BreakStatement],
         SwitchCase (Some (Literal (NumericLiteral ''3'')))
           [ExpressionStatement (callOf ''h''), BreakStatement],
         SwitchCase None [ExpressionStatement (callOf ''k''), BreakStatement]]"
  by (simp add: chainWithInnerTernary_def example_defs switch_defs)

lemma inner_first_run:
  "transformAST S [ExpressionStatement chainWithInnerTernary] =
     [SwitchStatement (Identifier ''a'')
        [SwitchCase (Some (Literal (NumericLiteral ''1'')))
           [ExpressionStatement
              (ConditionalExpression (Identifier ''p'') (Identifier ''q'') (Identifier ''r'')),
            BreakStatement],
         SwitchCase (Some (Literal (NumericLiteral ''2'')))
           [ExpressionStatement (callOf ''g''), BreakStatement],
         SwitchCase (Some (Literal (NumericLiteral ''3'')))
           [ExpressionStatement (callOf ''h''), BreakStatement],
         SwitchCase None [ExpressionStatement (callOf ''k''), BreakStatement]]]"
  by (simp add: transformAST_def chainWithInnerTernary_def example_defs switch_defs)

lemma inner_second_run:
  "transformAST S (transformAST S [ExpressionStatement chainWithInnerTernary]) =
     [SwitchStatement (Identifier ''a'')
        [SwitchCase (Some (Literal (NumericLiteral ''1'')))
           [IfStatement (Identifier ''p'') (BlockStatement [ExpressionStatement (Identifier ''q'')])
              (Some (BlockStatement [ExpressionStatement (Identifier ''r'')])),
            BreakStatement],
         SwitchCase (Some (Literal (NumericLiteral ''2'')))
           [ExpressionStatement (callOf ''g''), BreakStatement],
         SwitchCase (Some (Literal (NumericLiteral ''3'')))
           [ExpressionStatement (callOf ''h''), BreakStatement],
         SwitchCase None [ExpressionStatement (callOf ''k''), BreakStatement]]]"
  unfolding inner_first_run
  by (simp add: transformAST_def example_defs switch_defs)

text \<open>
  Claim C8. When the condition of a node gives comparison values and the node has a
  true branch, the case of the last value has the body made of the expression statement
  of the true branch's condition and a break, whatever the true branch is. In
  \<^verbatim>\<open>a==1 ? ((p ? q : r) ? x() : y()) : a==2 ? g() : a==3 ? h() : k()\<close> the true branch of
  the root is an internal node: the case of 1 holds its test \<^verbatim>\<open>p ? q : r\<close>, the calls
  \<^verbatim>\<open>x()\<close> and \<^verbatim>\<open>y()\<close> are gone, and the collection gives its list as for any other tree.
\<close>

theorem case_body_of_true_branch:
  "(extractComparisonValues S c base \<noteq> [] \<longrightarrow>
      collectSwitchCase S (DecisionTree c (Some t) fb) base =
        map (\<lambda>v. SwitchCase (Some v) []) (butlast (extractComparisonValues S c base))
        @ [SwitchCase (Some (last (extractComparisonValues S c base)))
             [ExpressionStatement (condition t), BreakStatement]]
        @ (case fb of
             None \<Rightarrow> []
           | Some f \<Rightarrow>
               if trueBranch f \<noteq> None \<or> falseBranch f \<noteq> None
               then collectSwitchCase S f base
               else [SwitchCase None [ExpressionStatement (condition f), BreakStatement]]))
   \<and> trueBranch (makeDecisionTree chainWithInnerTernary) =
       Some (DecisionTree
               (ConditionalExpression (Identifier ''p'') (Identifier ''q'') (Identifier ''r''))
               (Some (DecisionTree (callOf ''x'') None None))
               (Some (DecisionTree (callOf ''y'') None None)))
   \<and> collectSwitchCase S (makeDecisionTree chainWithInnerTernary) (Identifier ''a'') =
       [SwitchCase (Some (Literal (NumericLiteral ''1'')))
          [ExpressionStatement
             (ConditionalExpression (Identifier ''p'') (Identifier ''q'') (Identifier ''r'')),
           BreakStatement],
        SwitchCase (Some (Literal (NumericLiteral ''2'')))
          [ExpressionStatement (callOf ''g''), BreakStatement],
        SwitchCase (Some (Literal (NumericLiteral ''3'')))
          [ExpressionStatement (callOf ''h''), BreakStatement],
        SwitchCase None [ExpressionStatement (callOf ''k''), BreakStatement]]"
proof -
  have "trueBranch (makeDecisionTree chainWithInnerTernary) =
       Some (DecisionTree
               (ConditionalExpression (Identifier ''p'') (Identifier ''q'') (Identifier ''r''))
               (Some (DecisionTree (callOf ''x'') None None))
               (Some (DecisionTree (callOf ''y'') None None)))"
    by (simp add: chainWithInnerTernary_def example_defs)
  then show ?thesis
    using case_body [of S c base t fb] inner_cases [of S] by blast
qed

theorem case_body_of_true_branch_witness:
  "extractComparisonValues printExpr (equalsNumber ''a'' ''1'') (Identifier ''a'') \<noteq> []
   \<and> collectSwitchCase printExpr
       (DecisionTree (equalsNumber ''a'' ''1'')
          (Some (DecisionTree
                  (ConditionalExpression (Identifier ''p'') (Identifier ''q'') (Identifier ''r''))
                  (Some (DecisionTree (callOf ''x'') None None))
                  (Some (DecisionTree (callOf ''y'') None None))))
          None)
       (Identifier ''a'') =
     [SwitchCase (Some (Literal (NumericLiteral ''1'')))
        [ExpressionStatement
           (ConditionalExpression (Identifier ''p'') (Identifier ''q'') (Identifier ''r'')),
         BreakStatement]]"
proof -
  let ?t = "DecisionTree
              (ConditionalExpression (Identifier ''p'') (Identifier ''q'') (Identifier ''r''))
              (Some (DecisionTree (callOf ''x'') None None))
              (Some (DecisionTree (callOf ''y'') None None))"
  have vs: "extractComparisonValues printExpr (equalsNumber ''a'' ''1'') (Identifier ''a'')
      = [Literal (NumericLiteral ''1'')]"
    by (simp add: example_defs areNodesEqual_def)
  then have ne: "extractComparisonValues printExpr (equalsNumber ''a'' ''1'') (Identifier ''a'') \<noteq> []"
    by simp
  with case_body_of_true_branch
         [of printExpr "equalsNumber ''a'' ''1''" "Identifier ''a''" ?t None]
  have "collectSwitchCase printExpr (DecisionTree (equalsNumber ''a'' ''1'') (Some ?t) None)
          (Identifier ''a'') =
        map (\<lambda>v. SwitchCase (Some v) [])
          (butlast (extractComparisonValues printExpr (equalsNumber ''a'' ''1'') (Identifier ''a'')))
        @ [SwitchCase
             (Some (last (extractComparisonValues printExpr (equalsNumber ''a'' ''1'') (Identifier ''a''))))
             [ExpressionStatement (condition ?t), BreakStatement]]
        @ (case None of
             None \<Rightarrow> []
           | Some f \<Rightarrow>
               if trueBranch f \<noteq> None \<or> falseBranch f \<noteq> None
               then collectSwitchCase printExpr f (Identifier ''a'')
               else [SwitchCase None [ExpressionStatement (condition f), BreakStatement]])"
    by blast
  then have "collectSwitchCase printExpr (DecisionTree (equalsNumber ''a'' ''1'') (Some ?t) None)
          (Identifier ''a'') =
     [SwitchCase (Some (Literal (NumericLiteral ''1'')))
        [ExpressionStatement
           (ConditionalExpression (Identifier ''p'') (Identifier ''q'') (Identifier ''r'')),
         BreakStatement]]"
    by (simp add: vs)
  with ne show ?thesis by blast
qed

text \<open>
  Claim C9. A second run changes the output of the first one for the expression
  statement \<^verbatim>\<open>a==1 ? ((p ? q : r) ? x() : y()) : a==2 ? g() : a==3 ? h() : k()\<close>: the
  first run leaves the expression statement \<^verbatim>\<open>p ? q : r\<close> in the case of 1, and the
  second run turns it into an \<^verbatim>\<open>if\<close> with an \<^verbatim>\<open>else\<close>.
\<close>

theorem second_run_changes:
  "transformAST S [ExpressionStatement chainWithInnerTernary] =
     [SwitchStatement (Identifier ''a'')
        [SwitchCase (Some (Literal (NumericLiteral ''1'')))
           [ExpressionStatement
              (ConditionalExpression (Identifier ''p'') (Identifier ''q'') (Identifier ''r'')),
            BreakStatement],
         SwitchCase (Some (Literal (NumericLiteral ''2'')))
           [ExpressionStatement (callOf ''g''), BreakStatement],
         SwitchCase (Some (Literal (NumericLiteral ''3'')))
           [ExpressionStatement (callOf ''h''), BreakStatement],
         SwitchCase None [ExpressionStatement (callOf ''k''), BreakStatement]]]
   \<and> transformAST S (transformAST S [ExpressionStatement chainWithInnerTernary]) =
     [SwitchStatement (Identifier ''a'')
        [SwitchCase (Some (Literal (NumericLiteral ''1'')))
           [IfStatement (Identifier ''p'') (BlockStatement [ExpressionStatement (Identifier ''q'')])
              (Some (BlockStatement [ExpressionStatement (Identifier ''r'')])),
            BreakStatement],
         SwitchCase (Some (Literal (NumericLiteral ''2'')))
           [ExpressionStatement (callOf ''g''), BreakStatement],
         SwitchCase (Some (Literal (NumericLiteral ''3'')))
           [ExpressionStatement (callOf ''h''), BreakStatement],
         SwitchCase None [ExpressionStatement (callOf ''k''), BreakStatement]]]
   \<and> transformAST S (transformAST S [ExpressionStatement chainWithInnerTernary])
       \<noteq> transformAST S [ExpressionStatement chainWithInnerTernary]"
proof -
  note first = inner_first_run [of S] and second = inner_second_run [of S]
  have "transformAST S (transformAST S [ExpressionStatement chainWithInnerTernary])
       \<noteq> transformAST S [ExpressionStatement chainWithInnerTernary]"
    unfolding second unfolding first by simp
  with first second show ?thesis by blast
qed

end
